theory Spec2Isabelle
  imports Main "HOL-Library.Char_ord" "HOL-Library.List_Lexorder"
    "HOL-Library.Product_Lexorder" "HOL-Library.Multiset"
begin

section \<open>Times of day and the block generator\<close>

text \<open>
  A \<^verbatim>\<open>datetime.time\<close> is modelled as the number of seconds since midnight, a
  \<open>datetime\<close> of today as the number of seconds since today's midnight (so a value of
  \<open>86400\<close> or more lies in tomorrow). \<^verbatim>\<open>datetime.combine(today, t)\<close> is then the
  identity and \<^verbatim>\<open>dt.time()\<close> forgets the date.
\<close>

type_synonym time = nat

definition time_of :: "nat \<Rightarrow> time" where
  "time_of dt = dt mod 86400"

definition hour :: nat where
  "hour = 3600"

definition hm :: "nat \<Rightarrow> nat \<Rightarrow> time" where
  "hm h m = h * 3600 + m * 60"

type_synonym block = "string \<times> nat \<times> time \<times> time"

text \<open>
  The inner \<^verbatim>\<open>while cur < fin\<close> loop of \<^verbatim>\<open>genblocks\<close> for one day \<open>d\<close>: \<open>i\<close> and
  \<open>cur\<close> are the loop variables, the appended blocks are the result.
\<close>

function day_loop :: "string \<Rightarrow> nat \<Rightarrow> nat \<Rightarrow> nat \<Rightarrow> time \<Rightarrow> block list" where
  "day_loop d i cur fin en_time =
     (if cur < fin then
        (let s = time_of cur; e = time_of (cur + hour) in
         if e > en_time then []
         else (d, i, s, e) # day_loop d (i + 1) (cur + hour) fin en_time)
      else [])"
  by pat_completeness auto
termination
  by (relation "measure (\<lambda>(d, i, cur, fin, en_time). fin - cur)") (auto simp: hour_def)

declare day_loop.simps [simp del]

definition genblocks :: "string list \<Rightarrow> time \<Rightarrow> time \<Rightarrow> block list" where
  "genblocks days st_time en_time =
     concat (map (\<lambda>d. day_loop d 0 st_time en_time en_time) days)"

definition default_start :: time where
  "default_start = hm 7 30"

definition default_end :: time where
  "default_end = hm 17 30"

section \<open>The availability test\<close>

type_synonym busy = "string \<times> time \<times> time"

fun freeblk :: "busy list \<Rightarrow> string \<Rightarrow> time \<Rightarrow> time \<Rightarrow> bool" where
  "freeblk [] d s e = True"
| "freeblk ((day_of_week, cs, ce) # classes) d s e =
     (if day_of_week = d \<and> cs < e \<and> ce > s then False else freeblk classes d s e)"

section \<open>The roster\<close>

text \<open>
  The data frame returned by \<^verbatim>\<open>loaddata\<close>: one row per class interval, with the columns
  \<^verbatim>\<open>Student Name\<close>, \<^verbatim>\<open>Day of Week\<close>, \<^verbatim>\<open>Class Start\<close> and \<^verbatim>\<open>Class End\<close>.
\<close>

record roster_row =
  student_name :: string
  day_of_week :: string
  class_start :: time
  class_end :: time

type_synonym roster = "roster_row list"

text \<open>\<^verbatim>\<open>sorted(df['Day of Week'].unique())\<close>\<close>

definition active_days :: "roster \<Rightarrow> string list" where
  "active_days df = sort (remdups (map day_of_week df))"

text \<open>
  \<^verbatim>\<open>df.groupby("Student Name")\<close> yields the groups in ascending key order, each with its
  rows in roster order: \<open>students\<close> is the list of keys of \<^verbatim>\<open>stmap\<close> and \<open>stmap df s\<close> the
  value stored under \<open>s\<close>.
\<close>

definition students :: "roster \<Rightarrow> string list" where
  "students df = sort (remdups (map student_name df))"

definition stmap :: "roster \<Rightarrow> string \<Rightarrow> busy list" where
  "stmap df s =
     map (\<lambda>r. (day_of_week r, class_start r, class_end r))
       (filter (\<lambda>r. student_name r = s) df)"

section \<open>Linear programs\<close>

text \<open>
  The part of PuLP the program uses. A variable is identified by the dictionary and key
  it is stored under; every variable is created with \<^verbatim>\<open>cat=LpBinary\<close>. An affine
  expression is a list of weighted variables and a constant; a constraint compares two
  expressions; the constraint names are kept as structured labels.
\<close>

datatype var =
    X string string nat
  | Y string string
  | Start2 string string nat
  | Start3 string string nat
  | Start4 string string nat
  | U string nat

type_synonym expr = "(int \<times> var) list \<times> int"

definition lpSum :: "var list \<Rightarrow> expr" where
  "lpSum vs = (map (\<lambda>v. (1, v)) vs, 0)"

definition var_e :: "var \<Rightarrow> expr" where
  "var_e v = ([(1, v)], 0)"

definition const_e :: "int \<Rightarrow> expr" where
  "const_e c = ([], c)"

definition add_e :: "expr \<Rightarrow> expr \<Rightarrow> expr" where
  "add_e a b = (fst a @ fst b, snd a + snd b)"

definition scale_e :: "int \<Rightarrow> expr \<Rightarrow> expr" where
  "scale_e k a = (map (\<lambda>(c, v). (k * c, v)) (fst a), k * snd a)"

datatype sense = LE | GE | EQ

datatype constr = Constr expr sense expr

datatype label =
    Cover string nat
  | Ovl string nat
  | MinH string
  | MaxH string
  | AvgLow
  | AvgHigh
  | Busy string string nat
  | Shifts string string
  | Sumx string string
  | Unnamed

type_synonym valuation = "var \<Rightarrow> int"

definition eval_e :: "valuation \<Rightarrow> expr \<Rightarrow> int" where
  "eval_e val a = sum_list (map (\<lambda>(c, v). c * val v) (fst a)) + snd a"

fun holds :: "valuation \<Rightarrow> constr \<Rightarrow> bool" where
  "holds val (Constr l LE r) = (eval_e val l \<le> eval_e val r)"
| "holds val (Constr l GE r) = (eval_e val l \<ge> eval_e val r)"
| "holds val (Constr l EQ r) = (eval_e val l = eval_e val r)"

section \<open>The model builder\<close>

record model =
  objective :: expr
  constraints :: "(label \<times> constr) list"
  x_keys :: "(string \<times> string \<times> nat) list"
  y_keys :: "(string \<times> string) list"
  start2_keys :: "(string \<times> string \<times> nat) list"
  start3_keys :: "(string \<times> string \<times> nat) list"
  start4_keys :: "(string \<times> string \<times> nat) list"
  u_keys :: "(string \<times> nat) list"
  blks :: "block list"
  stus :: "string list"

text \<open>\<^verbatim>\<open>day_blocks[d]\<close> and \<^verbatim>\<open>[b[0] for b in day_blocks[d]]\<close>\<close>

definition day_blocks :: "block list \<Rightarrow> string \<Rightarrow> (nat \<times> time \<times> time) list" where
  "day_blocks bs d =
     map (\<lambda>(d', i, st, et). (i, st, et)) (filter (\<lambda>(d', i, st, et). d' = d) bs)"

definition block_indices :: "block list \<Rightarrow> string \<Rightarrow> nat list" where
  "block_indices bs d = map fst (day_blocks bs d)"

text \<open>
  The keys of \<^verbatim>\<open>start2\<close>, \<^verbatim>\<open>start3\<close> and \<^verbatim>\<open>start4\<close>: the variable for a shift of
  \<open>k + 1\<close> blocks starting at \<open>i\<close> is created when \<open>i + k\<close> is a block index of the day.
\<close>

definition start_keys ::
  "nat \<Rightarrow> string list \<Rightarrow> string list \<Rightarrow> block list \<Rightarrow> (string \<times> string \<times> nat) list" where
  "start_keys k ss ds bs =
     concat (map (\<lambda>s. concat (map (\<lambda>d.
       map (\<lambda>i. (s, d, i))
         (filter (\<lambda>i. i + k \<in> set (block_indices bs d)) (block_indices bs d))) ds)) ss)"

definition big_weight :: int where
  "big_weight = 1000"

definition objective_of :: "string list \<Rightarrow> string list \<Rightarrow> block list \<Rightarrow> int \<Rightarrow> expr" where
  "objective_of ss ds bs day_cost =
     add_e
       (add_e (scale_e big_weight (lpSum (map (\<lambda>(d, i, st, et). U d i) bs)))
              (lpSum (concat (map (\<lambda>s. map (\<lambda>(d, i, st, et). X s d i) bs) ss))))
       (scale_e day_cost (lpSum (concat (map (\<lambda>s. map (\<lambda>d. Y s d) ds) ss))))"

definition cover_constraints :: "string list \<Rightarrow> block list \<Rightarrow> (label \<times> constr) list" where
  "cover_constraints ss bs =
     map (\<lambda>(d, i, st, et).
       (Cover d i,
        Constr (add_e (lpSum (map (\<lambda>s. X s d i) ss)) (var_e (U d i))) GE (const_e 1))) bs"

definition ovl_constraints :: "string list \<Rightarrow> block list \<Rightarrow> int \<Rightarrow> (label \<times> constr) list" where
  "ovl_constraints ss bs maxovl =
     map (\<lambda>(d, i, st, et).
       (Ovl d i, Constr (lpSum (map (\<lambda>s. X s d i) ss)) LE (const_e maxovl))) bs"

definition hours_constraints ::
  "string list \<Rightarrow> block list \<Rightarrow> int \<Rightarrow> int \<Rightarrow> (label \<times> constr) list" where
  "hours_constraints ss bs minh maxh =
     concat (map (\<lambda>s.
       (let total_hrs = lpSum (map (\<lambda>(d, i, st, et). X s d i) bs) in
        [(MinH s, Constr total_hrs GE (const_e minh)),
         (MaxH s, Constr total_hrs LE (const_e maxh))])) ss)"

definition avg_constraints ::
  "string list \<Rightarrow> block list \<Rightarrow> int \<Rightarrow> int \<Rightarrow> (label \<times> constr) list" where
  "avg_constraints ss bs avg_low avg_high =
     (let N = int (length ss);
          total_all = lpSum (concat (map (\<lambda>s. map (\<lambda>(d, i, st, et). X s d i) bs) ss)) in
      [(AvgLow, Constr total_all GE (const_e (avg_low * N))),
       (AvgHigh, Constr total_all LE (const_e (avg_high * N)))])"

definition busy_constraints ::
  "roster \<Rightarrow> string list \<Rightarrow> string list \<Rightarrow> block list \<Rightarrow> (label \<times> constr) list" where
  "busy_constraints df ss ds bs =
     concat (map (\<lambda>s. concat (map (\<lambda>d. concat (map (\<lambda>(i, st, et).
       if \<not> freeblk (stmap df s) d st et
       then [(Busy s d i, Constr (var_e (X s d i)) EQ (const_e 0))]
       else []) (day_blocks bs d))) ds)) ss)"

definition link_constraints ::
  "(string \<times> string \<times> nat) list \<Rightarrow> (string \<times> string \<times> nat) list \<Rightarrow>
   (string \<times> string \<times> nat) list \<Rightarrow> string \<Rightarrow> string \<Rightarrow> nat \<Rightarrow> (label \<times> constr) list" where
  "link_constraints start2 start3 start4 s d i =
     (if (s, d, i) \<in> set start2 then
        [(Unnamed, Constr (var_e (X s d i)) GE (var_e (Start2 s d i))),
         (Unnamed, Constr (var_e (X s d (i + 1))) GE (var_e (Start2 s d i)))]
      else [])
     @ (if (s, d, i) \<in> set start3 then
        [(Unnamed, Constr (var_e (X s d i)) GE (var_e (Start3 s d i))),
         (Unnamed, Constr (var_e (X s d (i + 1))) GE (var_e (Start3 s d i))),
         (Unnamed, Constr (var_e (X s d (i + 2))) GE (var_e (Start3 s d i)))]
      else [])
     @ (if (s, d, i) \<in> set start4 then
        [(Unnamed, Constr (var_e (X s d i)) GE (var_e (Start4 s d i))),
         (Unnamed, Constr (var_e (X s d (i + 1))) GE (var_e (Start4 s d i))),
         (Unnamed, Constr (var_e (X s d (i + 2))) GE (var_e (Start4 s d i))),
         (Unnamed, Constr (var_e (X s d (i + 3))) GE (var_e (Start4 s d i)))]
      else [])"

definition shift_constraints ::
  "(string \<times> string \<times> nat) list \<Rightarrow> (string \<times> string \<times> nat) list \<Rightarrow>
   (string \<times> string \<times> nat) list \<Rightarrow> block list \<Rightarrow> string \<Rightarrow> string \<Rightarrow> (label \<times> constr) list" where
  "shift_constraints start2 start3 start4 bs s d =
     (let block_indices = block_indices bs d;
          s2_list = map (\<lambda>i. Start2 s d i) (filter (\<lambda>i. (s, d, i) \<in> set start2) block_indices);
          s3_list = map (\<lambda>i. Start3 s d i) (filter (\<lambda>i. (s, d, i) \<in> set start3) block_indices);
          s4_list = map (\<lambda>i. Start4 s d i) (filter (\<lambda>i. (s, d, i) \<in> set start4) block_indices);
          sum_x_day = lpSum (map (\<lambda>i. X s d i) block_indices) in
      [(Shifts s d, Constr (lpSum (s2_list @ s3_list @ s4_list)) EQ (var_e (Y s d))),
       (Sumx s d,
        Constr sum_x_day EQ
          (add_e (add_e (scale_e 2 (lpSum s2_list)) (scale_e 3 (lpSum s3_list)))
                 (scale_e 4 (lpSum s4_list))))]
      @ concat (map (link_constraints start2 start3 start4 s d) block_indices))"

definition build_model ::
  "roster \<Rightarrow> int \<Rightarrow> int \<Rightarrow> int \<Rightarrow> int \<Rightarrow> int \<Rightarrow> int \<Rightarrow> model" where
  "build_model df minh maxh avg_low avg_high maxovl day_cost =
     (let ds = active_days df;
          bs = genblocks ds default_start default_end;
          ss = students df;
          start2 = start_keys 1 ss ds bs;
          start3 = start_keys 2 ss ds bs;
          start4 = start_keys 3 ss ds bs in
      \<lparr> objective = objective_of ss ds bs day_cost,
        constraints =
          cover_constraints ss bs
          @ ovl_constraints ss bs maxovl
          @ hours_constraints ss bs minh maxh
          @ avg_constraints ss bs avg_low avg_high
          @ busy_constraints df ss ds bs
          @ concat (map (\<lambda>s. concat (map (shift_constraints start2 start3 start4 bs s) ds)) ss),
        x_keys = concat (map (\<lambda>s. concat (map (\<lambda>d.
                   map (\<lambda>(i, st, et). (s, d, i)) (day_blocks bs d)) ds)) ss),
        y_keys = concat (map (\<lambda>s. map (\<lambda>d. (s, d)) ds) ss),
        start2_keys = start2,
        start3_keys = start3,
        start4_keys = start4,
        u_keys = map (\<lambda>(d, i, st, et). (d, i)) bs,
        blks = bs,
        stus = ss \<rparr>)"

text \<open>
  The variables of a model, and what the solver's answer has to satisfy: every variable
  is 0 or 1 and every constraint holds.
\<close>

definition variables :: "model \<Rightarrow> var list" where
  "variables m =
     map (\<lambda>(s, d, i). X s d i) (x_keys m)
     @ map (\<lambda>(s, d). Y s d) (y_keys m)
     @ map (\<lambda>(s, d, i). Start2 s d i) (start2_keys m)
     @ map (\<lambda>(s, d, i). Start3 s d i) (start3_keys m)
     @ map (\<lambda>(s, d, i). Start4 s d i) (start4_keys m)
     @ map (\<lambda>(d, i). U d i) (u_keys m)"

definition feasible :: "model \<Rightarrow> valuation \<Rightarrow> bool" where
  "feasible m val =
     ((\<forall>v \<in> set (variables m). val v = 0 \<or> val v = 1)
      \<and> (\<forall>(l, c) \<in> set (constraints m). holds val c))"

section \<open>Properties of the availability test\<close>

lemma freeblk_False_iff:
  "(\<not> freeblk classes d s e) =
     (\<exists>(dw, cs, ce) \<in> set classes. dw = d \<and> cs < e \<and> ce > s)"
  by (induction classes) (auto split: if_splits)

text \<open>
  C5. A block \<open>[s, e)\<close> on day \<open>d\<close> is classified busy (\<open>freeblk\<close> returns False) exactly
  when some class interval of the same day has \<open>cs < e\<close> and \<open>ce > s\<close>; a class that
  ends exactly at the block's start, or starts exactly at its end, leaves the block free.
\<close>

theorem freeblk_busy_iff:
  "((\<not> freeblk classes d s e) =
      (\<exists>(dw, cs, ce) \<in> set classes. dw = d \<and> cs < e \<and> ce > s))
   \<and> freeblk [(d, cs', s)] d s e
   \<and> freeblk [(d, e, ce')] d s e"
  using freeblk_False_iff [of classes d s e] by simp

theorem freeblk_busy_iff_witness:
  "\<not> freeblk [(''Monday'', hm 9 0, hm 10 0), (''Tuesday'', hm 8 0, hm 9 30)] ''Tuesday'' (hm 8 30) (hm 9 30)
   \<and> (\<exists>(dw, cs, ce) \<in> set [(''Monday'', hm 9 0, hm 10 0), (''Tuesday'', hm 8 0, hm 9 30)].
         dw = ''Tuesday'' \<and> cs < hm 9 30 \<and> ce > hm 8 30)"
  using freeblk_busy_iff [of "[(''Monday'', hm 9 0, hm 10 0), (''Tuesday'', hm 8 0, hm 9 30)]"
      "''Tuesday''" "hm 8 30" "hm 9 30"]
  by (simp add: hm_def)

end
